theory Spec2Isabelle
  imports Main "HOL-Library.Word" "HOL-Library.FSet" "HOL-Library.Finite_Map"
    "HOL-Library.Char_ord" "HOL-Library.List_Lexorder"
begin

section \<open>The keyed store: \<open>Map[K, T]\<close> of map.go\<close>

text \<open>
  The struct \<open>Map[K, T]\<close> holds a lock, the counter \<open>ver uint64\<close> and the Go map
  \<open>vals map[K]T\<close>. Every method takes the lock for its whole body, so a method is one
  atomic step on the pair (\<open>ver\<close>, \<open>vals\<close>) and the lock itself is not part of the state.
  \<^item> \<open>ver\<close> is a 64-bit word: \<open>m.ver++\<close> wraps around at \<open>2^64\<close>.
  \<^item> \<open>vals\<close> is a finite map, or \<open>None\<close> for Go's nil map (the zero value of the
    struct, and what \<open>Clear\<close> and \<open>PopAll\<close> leave behind).
  \<^item> A Go map has no iteration order: a method that ranges over \<open>m.vals\<close> takes the
    order in which that \<open>range\<close> statement yields the entries as an argument \<open>it\<close>.
\<close>

record ('k, 'v) Map =
  ver :: "64 word"
  vals :: "('k, 'v) fmap option"

text \<open>\<open>var m Map[K, T]\<close>: the zero value of the struct.\<close>

definition Map_zero :: "('k, 'v) Map" where
  "Map_zero = \<lparr>ver = 0, vals = None\<rparr>"

text \<open>\<open>NewMap(values)\<close>: \<open>maps.Clone\<close> copies the entries and keeps nil as nil.\<close>

definition NewMap :: "('k, 'v) fmap option \<Rightarrow> ('k, 'v) Map" where
  "NewMap values = \<lparr>ver = 0, vals = values\<rparr>"

definition Map_Clear :: "('k, 'v) Map \<Rightarrow> ('k, 'v) Map" where
  "Map_Clear m = m\<lparr>vals := None, ver := ver m + 1\<rparr>"

definition Map_Set :: "('k, 'v) Map \<Rightarrow> 'k \<Rightarrow> 'v \<Rightarrow> ('k, 'v) Map" where
  "Map_Set m key val =
     (let vs = (case vals m of None \<Rightarrow> fmempty | Some mp \<Rightarrow> mp)
      in m\<lparr>vals := Some (fmupd key val vs), ver := ver m + 1\<rparr>)"

definition Map_Delete :: "('k, 'v) Map \<Rightarrow> 'k \<Rightarrow> ('k, 'v) Map" where
  "Map_Delete m key =
     (case vals m of
        None \<Rightarrow> m
      | Some mp \<Rightarrow> m\<lparr>vals := Some (fmdrop key mp), ver := ver m + 1\<rparr>)"

text \<open>
  \<open>Get\<close> returns the zero value of \<open>T\<close> for a missing key and for a nil map; the zero
  value of the instantiated type is the argument \<open>z\<close>.
\<close>

definition Map_Get :: "'v \<Rightarrow> ('k, 'v) Map \<Rightarrow> 'k \<Rightarrow> 'v" where
  "Map_Get z m key =
     (case vals m of
        None \<Rightarrow> z
      | Some mp \<Rightarrow> (case fmlookup mp key of None \<Rightarrow> z | Some v \<Rightarrow> v))"

text \<open>
  \<open>GetOrSet(key, fn)\<close>: the read lock is released before \<open>fn()\<close> runs, and \<open>m.Set\<close>
  takes the write lock only after \<open>fn\<close> has returned. The supplier \<open>fn\<close> is a Go
  closure that runs with no lock held: it may call the methods of this store and may
  have effects elsewhere. It is a function of the store and of an outside world \<open>'w\<close>
  that returns its value, the store as it leaves it and the new world. \<open>m.Set\<close> then
  acts on the store that \<open>fn\<close> left. A run of \<open>GetOrSet\<close> that does not call \<open>fn\<close>
  returns the store and the world as it got them. Other goroutines are not modelled.
\<close>

definition Map_GetOrSet ::
  "('k, 'v) Map \<Rightarrow> 'k \<Rightarrow> (('k, 'v) Map \<Rightarrow> 'w \<Rightarrow> 'v \<times> ('k, 'v) Map \<times> 'w) \<Rightarrow> 'w
     \<Rightarrow> 'v \<times> ('k, 'v) Map \<times> 'w" where
  "Map_GetOrSet m key fn w =
     (case (case vals m of None \<Rightarrow> None | Some mp \<Rightarrow> fmlookup mp key) of
        Some res \<Rightarrow> (res, m, w)
      | None \<Rightarrow> (let (res, m1, w') = fn m w in (res, Map_Set m1 key res, w')))"

definition Map_Exists :: "('k, 'v) Map \<Rightarrow> 'k \<Rightarrow> bool" where
  "Map_Exists m key =
     (case vals m of None \<Rightarrow> False | Some mp \<Rightarrow> fmlookup mp key \<noteq> None)"

text \<open>\<open>len\<close> of a nil map is 0.\<close>

definition Map_Len :: "('k, 'v) Map \<Rightarrow> nat" where
  "Map_Len m = (case vals m of None \<Rightarrow> 0 | Some mp \<Rightarrow> fcard (fmdom mp))"

definition Map_Version :: "('k, 'v) Map \<Rightarrow> 64 word" where
  "Map_Version m = ver m"

text \<open>\<open>KeyValues\<close> copies the entries into a fresh map, which is never nil.\<close>

definition Map_KeyValues :: "('k, 'v) Map \<Rightarrow> ('k, 'v) fmap" where
  "Map_KeyValues m = (case vals m of None \<Rightarrow> fmempty | Some mp \<Rightarrow> mp)"

text \<open>
  The order \<open>it\<close> in which a \<open>range\<close> over the map \<open>mp\<close> yields its entries: each entry
  once, in any order.
\<close>

definition range_order :: "('k, 'v) fmap \<Rightarrow> ('k \<times> 'v) list \<Rightarrow> bool" where
  "range_order mp it \<longleftrightarrow> distinct (map fst it) \<and> fmap_of_list it = mp"

text \<open>
  \<open>Pop\<close> removes the first entry that \<open>range\<close> yields. The result \<open>None\<close> stands for the
  zero key and zero value that the method returns when there is nothing to remove.
\<close>

definition Map_Pop :: "('k, 'v) Map \<Rightarrow> ('k \<times> 'v) list \<Rightarrow> ('k \<times> 'v) option \<times> ('k, 'v) Map" where
  "Map_Pop m it =
     (case vals m of
        None \<Rightarrow> (None, m)
      | Some mp \<Rightarrow>
          (case it of
             [] \<Rightarrow> (None, m)
           | (key, val) # _ \<Rightarrow> (Some (key, val), m\<lparr>vals := Some (fmdrop key mp), ver := ver m + 1\<rparr>)))"

definition Map_PopAll :: "('k, 'v) Map \<Rightarrow> ('k, 'v) fmap option \<times> ('k, 'v) Map" where
  "Map_PopAll m = (vals m, m\<lparr>vals := None, ver := ver m + 1\<rparr>)"

text \<open>
  \<open>Random\<close>: \<open>n\<close> is the value of \<open>rand.Intn(cnt)\<close>, an \<open>int\<close> with \<open>0 \<le> n < cnt\<close>.
  The loop walks the entries in the order \<open>it\<close>, returns the entry at which \<open>n\<close> has
  reached 0 and decrements \<open>n\<close> otherwise; \<open>panic(1)\<close> follows the loop. \<open>Inr None\<close>
  stands for the zero key and value returned for an empty store.
\<close>

datatype panic = Panic int

fun Random_scan :: "'a list \<Rightarrow> int \<Rightarrow> panic + 'a" where
  "Random_scan [] n = Inl (Panic 1)"
| "Random_scan (x # xs) n = (if n = 0 then Inr x else Random_scan xs (n - 1))"

definition Map_Random :: "('k, 'v) Map \<Rightarrow> int \<Rightarrow> ('k \<times> 'v) list \<Rightarrow> panic + ('k \<times> 'v) option" where
  "Map_Random m n it =
     (if 0 < Map_Len m
      then (case Random_scan it n of Inl p \<Rightarrow> Inl p | Inr kv \<Rightarrow> Inr (Some kv))
      else Inr None)"

text \<open>
  The method \<open>Increment\<close> is in map.go only as a comment (lines 46 to 58): the compiled
  type \<open>Map[K, T]\<close> has no such method, while \<open>TestMap_Increment\<close> of map_test.go calls
  it. \<open>Map_Increment\<close> transcribes the body that the comment holds, for a value type
  with an addition: \<open>val += v\<close> when the key is there, then the store of \<open>val\<close>.
\<close>

definition Map_Increment :: "('k, 'v::plus) Map \<Rightarrow> 'k \<Rightarrow> 'v \<Rightarrow> 'v \<times> ('k, 'v) Map" where
  "Map_Increment m key val =
     (let vs = (case vals m of None \<Rightarrow> fmempty | Some mp \<Rightarrow> mp);
          val' = (case fmlookup vs key of Some v \<Rightarrow> val + v | None \<Rightarrow> val)
      in (val', m\<lparr>vals := Some (fmupd key val' vs), ver := ver m + 1\<rparr>))"

subsection \<open>Encoding and decoding\<close>

text \<open>
  The codecs are the libraries encoding/json and encoding/gob; the methods pass them
  \<open>m.vals\<close> or a pointer to it. A call \<open>Decode(&m.vals)\<close> on the input \<open>data\<close> is a
  function from the value of \<open>m.vals\<close> before the call to the returned error (\<open>None\<close>
  for nil) and the value of \<open>m.vals\<close> after it. \<open>UnmarshalJSON\<close> and \<open>BinaryDecode\<close>
  run \<open>m.ver++\<close> after the call whatever it returned.
\<close>

datatype error = SyntaxError | UnmarshalTypeError | OtherError

type_synonym ('k, 'v) decoding = "('k, 'v) fmap option \<Rightarrow> error option \<times> ('k, 'v) fmap option"


definition Map_UnmarshalJSON ::
  "('b \<Rightarrow> ('k, 'v) decoding) \<Rightarrow> ('k, 'v) Map \<Rightarrow> 'b \<Rightarrow> error option \<times> ('k, 'v) Map" where
  "Map_UnmarshalJSON Decode m data =
     (let (err, vs) = Decode data (vals m)
      in (err, m\<lparr>vals := vs, ver := ver m + 1\<rparr>))"

definition Map_BinaryDecode ::
  "('r \<Rightarrow> ('k, 'v) decoding) \<Rightarrow> ('k, 'v) Map \<Rightarrow> 'r \<Rightarrow> error option \<times> ('k, 'v) Map" where
  "Map_BinaryDecode Decode m r =
     (let (err, vs) = Decode r (vals m)
      in (err, m\<lparr>vals := vs, ver := ver m + 1\<rparr>))"

text \<open>
  What encoding/json does with a pointer to a map, from the documentation of
  \<open>json.Unmarshal\<close>: "To unmarshal a JSON object into a map, Unmarshal first establishes
  a map to use. If the map is nil, Unmarshal allocates a new map. Otherwise Unmarshal
  reuses the existing map, keeping existing entries. Unmarshal then stores key-value
  pairs from the JSON object into the map." and "The JSON null value unmarshals into an
  interface, map, pointer, or slice by setting that Go value to nil."
  The input is taken as the decoder reads it at the types \<open>K\<close> and \<open>T\<close>:
  \<^item> \<open>Doc_malformed\<close>: no JSON value; a syntax error, nothing is stored;
  \<^item> \<open>Doc_other\<close>: a JSON value that is neither an object nor null; a type error,
    nothing is stored;
  \<^item> \<open>Doc_null\<close>: the value null;
  \<^item> \<open>Doc_object xs\<close>: an object whose members, in the order of the text, are \<open>xs\<close>;
  \<^item> \<open>Doc_object_mistyped xs\<close>: an object with a member that does not fit \<open>K\<close> or
    \<open>T\<close>; the decoder goes on, stores the pairs \<open>xs\<close> and returns the type error.
\<close>

datatype ('k, 'v) json_doc =
  Doc_malformed
| Doc_other
| Doc_null
| Doc_object "('k \<times> 'v) list"
| Doc_object_mistyped "('k \<times> 'v) list"

definition store_pairs :: "('k \<times> 'v) list \<Rightarrow> ('k, 'v) fmap option \<Rightarrow> ('k, 'v) fmap" where
  "store_pairs xs target =
     fold (\<lambda>(k, v) mp. fmupd k v mp) xs (case target of None \<Rightarrow> fmempty | Some mp \<Rightarrow> mp)"

definition json_Decode :: "('b \<Rightarrow> ('k, 'v) json_doc) \<Rightarrow> 'b \<Rightarrow> ('k, 'v) decoding" where
  "json_Decode read data target =
     (case read data of
        Doc_malformed \<Rightarrow> (Some SyntaxError, target)
      | Doc_other \<Rightarrow> (Some UnmarshalTypeError, target)
      | Doc_null \<Rightarrow> (None, None)
      | Doc_object xs \<Rightarrow> (None, Some (store_pairs xs target))
      | Doc_object_mistyped xs \<Rightarrow> (Some UnmarshalTypeError, Some (store_pairs xs target)))"






subsection \<open>Sequences of method calls\<close>

text \<open>
  One call of a method that can write to the store, with its arguments. \<open>Call_GetOrSet k v\<close>
  is a call whose supplier returns \<open>v\<close> and does not touch the store (a supplier that
  calls methods of the store is those calls, followed by this one); \<open>Call_Pop it\<close> carries the order of the
  \<open>range\<close> inside \<open>Pop\<close>; the two decoding calls carry what the codec does with the
  input. \<open>Call_read\<close> is a call of any method that only reads (\<open>Get\<close>, \<open>Exists\<close>, \<open>Len\<close>,
  \<open>Version\<close>, \<open>KeyValues\<close>, \<open>Keys\<close>, \<open>Values\<close>, \<open>String\<close>, \<open>Random\<close>, the encoders).
\<close>

datatype ('k, 'v) call =
  Call_Clear
| Call_Set 'k 'v
| Call_Delete 'k
| Call_GetOrSet 'k 'v
| Call_Pop "('k \<times> 'v) list"
| Call_PopAll
| Call_UnmarshalJSON "('k, 'v) decoding"
| Call_BinaryDecode "('k, 'v) decoding"
| Call_read

fun Map_call :: "('k, 'v) call \<Rightarrow> ('k, 'v) Map \<Rightarrow> ('k, 'v) Map" where
  "Map_call Call_Clear m = Map_Clear m"
| "Map_call (Call_Set k v) m = Map_Set m k v"
| "Map_call (Call_Delete k) m = Map_Delete m k"
| "Map_call (Call_GetOrSet k v) m = fst (snd (Map_GetOrSet m k (\<lambda>s w. (v, s, w)) ()))"
| "Map_call (Call_Pop it) m = snd (Map_Pop m it)"
| "Map_call Call_PopAll m = snd (Map_PopAll m)"
| "Map_call (Call_UnmarshalJSON d) m = snd (Map_UnmarshalJSON (\<lambda>_. d) m ())"
| "Map_call (Call_BinaryDecode d) m = snd (Map_BinaryDecode (\<lambda>_. d) m ())"
| "Map_call Call_read m = m"

definition Map_calls :: "('k, 'v) call list \<Rightarrow> ('k, 'v) Map \<Rightarrow> ('k, 'v) Map" where
  "Map_calls cs m = fold Map_call cs m"

text \<open>
  For a sequence of \<open>Set\<close> and \<open>Delete\<close> calls, in the words of the specification: the
  key \<open>k\<close> "was set and not subsequently deleted" when some call in the sequence is a
  \<open>Set\<close> of \<open>k\<close> and no call after it is a \<open>Delete\<close> of \<open>k\<close>.
\<close>

fun is_Set_of :: "'k \<Rightarrow> ('k, 'v) call \<Rightarrow> bool" where
  "is_Set_of k (Call_Set k' v) = (k' = k)"
| "is_Set_of k _ = False"

fun is_Delete_of :: "'k \<Rightarrow> ('k, 'v) call \<Rightarrow> bool" where
  "is_Delete_of k (Call_Delete k') = (k' = k)"
| "is_Delete_of k _ = False"

fun set_not_deleted :: "('k, 'v) call list \<Rightarrow> 'k \<Rightarrow> bool" where
  "set_not_deleted [] k = False"
| "set_not_deleted (c # cs) k =
     ((is_Set_of k c \<and> \<not> list_ex (is_Delete_of k) cs) \<or> set_not_deleted cs k)"

definition only_Set_Delete :: "('k, 'v) call list \<Rightarrow> bool" where
  "only_Set_Delete cs =
     list_all (\<lambda>c. case c of Call_Set k v \<Rightarrow> True | Call_Delete k \<Rightarrow> True | _ \<Rightarrow> False) cs"

section \<open>The membership store: \<open>Set[K]\<close> of set.go\<close>

text \<open>
  \<open>vals map[K]struct{}\<close> carries no payload: it is a finite set of keys, \<open>None\<close> for nil.
  The fields and methods of \<open>Set[K]\<close> carry the prefix \<open>Set_\<close>.
\<close>

record 'k Set =
  Set_ver :: "64 word"
  Set_vals :: "'k fset option"

definition Set_zero :: "'k Set" where
  "Set_zero = \<lparr>Set_ver = 0, Set_vals = None\<rparr>"

definition NewSet :: "'k list \<Rightarrow> 'k Set" where
  "NewSet values = \<lparr>Set_ver = 0, Set_vals = Some (fold finsert values {||})\<rparr>"

definition Set_Clear :: "'k Set \<Rightarrow> 'k Set" where
  "Set_Clear m = m\<lparr>Set_vals := Some {||}, Set_ver := Set_ver m + 1\<rparr>"

definition Set_Set :: "'k Set \<Rightarrow> 'k \<Rightarrow> 'k Set" where
  "Set_Set m key =
     (let vs = (case Set_vals m of None \<Rightarrow> {||} | Some s \<Rightarrow> s)
      in m\<lparr>Set_vals := Some (finsert key vs), Set_ver := Set_ver m + 1\<rparr>)"

definition Set_Delete :: "'k Set \<Rightarrow> 'k \<Rightarrow> 'k Set" where
  "Set_Delete m key =
     (case Set_vals m of
        None \<Rightarrow> m
      | Some s \<Rightarrow> m\<lparr>Set_vals := Some (s |-| {|key|}), Set_ver := Set_ver m + 1\<rparr>)"

definition Set_Exists :: "'k Set \<Rightarrow> 'k \<Rightarrow> bool" where
  "Set_Exists m key = (case Set_vals m of None \<Rightarrow> False | Some s \<Rightarrow> key |\<in>| s)"

definition Set_Size :: "'k Set \<Rightarrow> nat" where
  "Set_Size m = (case Set_vals m of None \<Rightarrow> 0 | Some s \<Rightarrow> fcard s)"

definition Set_Version :: "'k Set \<Rightarrow> 64 word" where
  "Set_Version m = Set_ver m"

text \<open>The order \<open>it\<close> in which a \<open>range\<close> over the key set \<open>s\<close> yields its keys.\<close>

definition range_order_keys :: "'k fset \<Rightarrow> 'k list \<Rightarrow> bool" where
  "range_order_keys s it \<longleftrightarrow> distinct it \<and> fset_of_list it = s"

definition Set_Random :: "'k Set \<Rightarrow> int \<Rightarrow> 'k list \<Rightarrow> panic + 'k option" where
  "Set_Random m n it =
     (if 0 < Set_Size m
      then (case Random_scan it n of Inl p \<Rightarrow> Inl p | Inr k \<Rightarrow> Inr (Some k))
      else Inr None)"

text \<open>
  \<open>Values\<close> is \<open>mapKeys(m.vals)\<close>: the nil slice (\<open>None\<close>) for a nil map, and otherwise
  the keys in the order \<open>it\<close> of its \<open>range\<close>.
\<close>

definition mapKeys :: "'k fset option \<Rightarrow> 'k list \<Rightarrow> 'k list option" where
  "mapKeys mm it = (case mm of None \<Rightarrow> None | Some s \<Rightarrow> Some it)"

definition Set_Values :: "'k Set \<Rightarrow> 'k list \<Rightarrow> 'k list option" where
  "Set_Values m it = mapKeys (Set_vals m) it"

text \<open>
  \<open>encString(v any)\<close> switches on the dynamic type of \<open>v\<close>. The values that reach it are
  a string, a \<open>fmt.Stringer\<close> (carried as the result of its \<open>String()\<close>), and two kinds of
  value that take the default branch \<open>json.Marshal(v)\<close>: an \<open>int\<close>, which JSON writes in
  decimal, and a \<open>[]string\<close>, which JSON writes as an array of string literals. The
  writing of one string literal (quotes and escapes) is the argument \<open>quote\<close>.
\<close>

datatype go_value = GoString string | GoStringer string | GoInt int | GoStrings "string list"

fun itoa_nat :: "nat \<Rightarrow> string" where
  "itoa_nat n =
     (if n < 10 then [''0123456789'' ! n]
      else itoa_nat (n div 10) @ [''0123456789'' ! (n mod 10)])"

definition itoa :: "int \<Rightarrow> string" where
  "itoa i = (if i < 0 then CHR ''-'' # itoa_nat (nat (- i)) else itoa_nat (nat i))"

fun join_comma :: "string list \<Rightarrow> string" where
  "join_comma [] = []"
| "join_comma [s] = s"
| "join_comma (s # t # ss) = s @ CHR '','' # join_comma (t # ss)"

fun encString :: "(string \<Rightarrow> string) \<Rightarrow> go_value \<Rightarrow> string" where
  "encString quote (GoString s) = s"
| "encString quote (GoStringer s) = s"
| "encString quote (GoInt i) = itoa i"
| "encString quote (GoStrings ss) = CHR ''['' # join_comma (map quote ss) @ [CHR '']'']"

text \<open>
  \<open>Strings\<close>: the loop is \<open>for k := range m.Values()\<close>. A \<open>range\<close> over a slice with
  one variable yields the indices \<open>0, 1, ...\<close> of the slice, so \<open>k\<close> is an \<open>int\<close> and
  \<open>encString(k)\<close> takes the default branch. The slice \<open>ss\<close> comes from \<open>make\<close> and is
  never nil. \<open>String\<close> is \<open>encString(m.Strings())\<close>.
\<close>

definition Set_Strings :: "(string \<Rightarrow> string) \<Rightarrow> 'k Set \<Rightarrow> 'k list \<Rightarrow> string list" where
  "Set_Strings quote m it =
     map (\<lambda>k. encString quote (GoInt (int k)))
       [0 ..< length (case Set_Values m it of None \<Rightarrow> [] | Some vs \<Rightarrow> vs)]"

definition Set_String :: "(string \<Rightarrow> string) \<Rightarrow> 'k Set \<Rightarrow> 'k list \<Rightarrow> string" where
  "Set_String quote m it = encString quote (GoStrings (Set_Strings quote m it))"

text \<open>
  Decoding: \<open>json.Unmarshal(data, &vv)\<close> and \<open>gob.NewDecoder(r).Decode(&vv)\<close> fill the
  local slice \<open>vv\<close>, which starts as nil. The library call is the argument: it returns
  the error, or the slice it has built. On an error the method returns before it takes
  the lock.
\<close>

definition sliceToMap :: "'k list \<Rightarrow> 'k fset" where
  "sliceToMap s = fold finsert s {||}"

definition Set_UnmarshalJSON :: "('b \<Rightarrow> error + 'k list) \<Rightarrow> 'k Set \<Rightarrow> 'b \<Rightarrow> error option \<times> 'k Set" where
  "Set_UnmarshalJSON Unmarshal m data =
     (case Unmarshal data of
        Inl err \<Rightarrow> (Some err, m)
      | Inr vv \<Rightarrow> (None, m\<lparr>Set_vals := Some (sliceToMap vv), Set_ver := Set_ver m + 1\<rparr>))"

definition Set_BinaryDecode :: "('r \<Rightarrow> error + 'k list) \<Rightarrow> 'k Set \<Rightarrow> 'r \<Rightarrow> error option \<times> 'k Set" where
  "Set_BinaryDecode Decode m r =
     (case Decode r of
        Inl err \<Rightarrow> (Some err, m)
      | Inr vv \<Rightarrow> (None, m\<lparr>Set_vals := Some (sliceToMap vv), Set_ver := Set_ver m + 1\<rparr>))"

section \<open>Deleting a key that is not there\<close>

lemma Map_Delete_absent:
  "\<not> Map_Exists m k \<Longrightarrow>
     vals (Map_Delete m k) = vals m \<and>
     ver (Map_Delete m k) = (if vals m = None then ver m else ver m + 1)"
  by (auto simp: Map_Delete_def Map_Exists_def fmdrop_idle fmdom_notI split: option.splits)

lemma Set_Delete_absent:
  "\<not> Set_Exists s k \<Longrightarrow>
     Set_vals (Set_Delete s k) = Set_vals s \<and>
     Set_ver (Set_Delete s k) = (if Set_vals s = None then Set_ver s else Set_ver s + 1)"
  by (auto simp: Set_Delete_def Set_Exists_def split: option.splits)

text \<open>
  Claim C4, as stated: for a key that is not in the mapping, \<open>Delete\<close> leaves the version
  counter and the mapping unchanged. The store that holds only \<open>"a"\<close> refutes the part
  on the counter: \<open>"b"\<close> is not there, and \<open>Delete("b")\<close> moves the version from 1 to 2,
  because \<open>m.ver++\<close> stands under \<open>if m.vals != nil\<close> and not under a test of the key.
\<close>

theorem Delete_absent_counterexample:
  "\<not> Map_Exists (Map_Set Map_zero ''a'' (1::int)) ''b'' \<and>
   Map_Version (Map_Delete (Map_Set Map_zero ''a'' (1::int)) ''b'')
     \<noteq> Map_Version (Map_Set Map_zero ''a'' (1::int))"
  by (simp add: Map_Exists_def Map_Set_def Map_zero_def Map_Delete_def Map_Version_def)

text \<open>
  Claim C4, amended: for every state of either store and every key that is not in the
  mapping, \<open>Delete\<close> leaves the mapping as it is (a nil map stays nil); the version
  counter is unchanged when the map is nil and is incremented by one when the map
  exists, although nothing was removed.
\<close>

theorem Delete_absent_key:
  "(\<not> Map_Exists m k \<longrightarrow>
      vals (Map_Delete m k) = vals m \<and>
      Map_KeyValues (Map_Delete m k) = Map_KeyValues m \<and>
      Map_Version (Map_Delete m k) = (if vals m = None then Map_Version m else Map_Version m + 1)) \<and>
   (\<not> Set_Exists s j \<longrightarrow>
      Set_vals (Set_Delete s j) = Set_vals s \<and>
      Set_Version (Set_Delete s j) = (if Set_vals s = None then Set_Version s else Set_Version s + 1))"
  using Map_Delete_absent [of m k] Set_Delete_absent [of s j]
  by (simp add: Map_KeyValues_def Map_Version_def Set_Version_def)

theorem Delete_absent_key_witness:
  "\<not> Map_Exists (Map_Set Map_zero ''a'' (1::int)) ''b'' \<and>
   vals (Map_Delete (Map_Set Map_zero ''a'' (1::int)) ''b'') = Some (fmupd ''a'' 1 fmempty) \<and>
   Map_Version (Map_Delete (Map_Set Map_zero ''a'' (1::int)) ''b'') = 2 \<and>
   \<not> Map_Exists (Map_zero :: (string, int) Map) ''b'' \<and>
   Map_Version (Map_Delete (Map_zero :: (string, int) Map) ''b'') = 0 \<and>
   \<not> Set_Exists (Set_Set Set_zero ''a'') ''b'' \<and>
   Set_vals (Set_Delete (Set_Set Set_zero ''a'') ''b'') = Some {|''a''|} \<and>
   Set_Version (Set_Delete (Set_Set Set_zero ''a'') ''b'') = 2"
  using Delete_absent_key [of "Map_Set Map_zero ''a'' (1::int)" "''b''" "Set_Set Set_zero ''a''" "''b''"]
    Delete_absent_key [of "Map_zero :: (string, int) Map" "''b''" "Set_Set Set_zero ''a''" "''b''"]
  by (simp add: Map_Exists_def Map_Set_def Map_zero_def Map_Version_def
      Set_Exists_def Set_Set_def Set_zero_def Set_Version_def)

section \<open>The body of the disabled \<open>Increment\<close>\<close>

lemma Map_Increment_effect:
  "Map_Increment m k d =
     ((case fmlookup (Map_KeyValues m) k of Some v \<Rightarrow> d + v | None \<Rightarrow> d),
      \<lparr>ver = ver m + 1,
       vals = Some (fmupd k (case fmlookup (Map_KeyValues m) k of Some v \<Rightarrow> d + v | None \<Rightarrow> d)
                (Map_KeyValues m))\<rparr>)"
  by (simp add: Map_Increment_def Map_KeyValues_def Let_def)

text \<open>
  Claim C1: the keyed store provides \<open>Increment(key, delta)\<close>, and on an empty store
  \<open>Increment("abc", 100)\<close>, \<open>Increment("abc", 20)\<close>, \<open>Increment("abc", 3)\<close> leave
  \<open>Get("abc")\<close> at 123. The compiled store has no such method. What is proved here is
  about the body kept in the comment, with \<open>int\<close> values as 64-bit words: it would give
  123, as \<open>TestMap_Increment\<close> expects.
\<close>

theorem Increment_commented_out:
  "Map_Get 0 (snd (Map_Increment (snd (Map_Increment (snd (Map_Increment
      (Map_zero :: (string, 64 word) Map) ''abc'' 100)) ''abc'' 20)) ''abc'' 3)) ''abc'' = 123"
  by (simp add: Map_Get_def Map_Increment_def Map_zero_def)

section \<open>Decoding JSON into the keyed store\<close>

text \<open>
  Claim C2: a successful JSON decode replaces the whole previous mapping, so that a key
  that was there before and is not in the document is gone afterwards. The method hands
  \<open>&m.vals\<close>, with the old entries in it, to the decoder, which keeps them: the store
  that holds \<open>"a": 1\<close> decodes the document \<open>{"b": 2}\<close> without error and holds both
  entries afterwards.
\<close>

theorem UnmarshalJSON_keeps_old_entries:
  "Map_UnmarshalJSON (json_Decode (\<lambda>d. d)) (Map_Set Map_zero ''a'' (1::int)) (Doc_object [(''b'', 2)])
     = (None, \<lparr>ver = 2, vals = Some (fmupd ''b'' 2 (fmupd ''a'' 1 fmempty))\<rparr>) \<and>
   Map_Exists (snd (Map_UnmarshalJSON (json_Decode (\<lambda>d. d)) (Map_Set Map_zero ''a'' (1::int))
      (Doc_object [(''b'', 2)]))) ''a''"
  by (simp add: Map_UnmarshalJSON_def json_Decode_def store_pairs_def Map_Set_def Map_zero_def
      Map_Exists_def)

section \<open>The display form of the membership store\<close>

lemma Set_Strings_indices:
  "Set_Strings quote m it =
     (case Set_vals m of None \<Rightarrow> [] | Some s \<Rightarrow> map (\<lambda>i. itoa (int i)) [0 ..< length it])"
  by (simp add: Set_Strings_def Set_Values_def mapKeys_def split: option.splits)

text \<open>
  Claim C3: \<open>String()\<close> of the membership store is a JSON array with one element per
  key, and the string encoding of every stored key is among the elements. The store with
  the keys \<open>"abc"\<close> and \<open>"def"\<close> has an array of two elements, but they are \<open>"0"\<close> and
  \<open>"1"\<close>: the loop of \<open>Strings\<close> encodes the index that \<open>range\<close> yields, not the key.
  The encoding of the key \<open>"abc"\<close>, which is \<open>abc\<close> itself, is not among them.
\<close>

theorem Strings_are_indices:
  "range_order_keys {|''abc'', ''def''|} [''def'', ''abc''] \<and>
   Set_vals (Set_Set (Set_Set Set_zero ''abc'') ''def'') = Some {|''abc'', ''def''|} \<and>
   Set_Strings (\<lambda>s. CHR 0x22 # s @ [CHR 0x22]) (Set_Set (Set_Set Set_zero ''abc'') ''def'')
      [''def'', ''abc''] = [''0'', ''1''] \<and>
   Set_String (\<lambda>s. CHR 0x22 # s @ [CHR 0x22]) (Set_Set (Set_Set Set_zero ''abc'') ''def'')
      [''def'', ''abc'']
     = [CHR ''['', CHR 0x22, CHR ''0'', CHR 0x22, CHR '','', CHR 0x22, CHR ''1'', CHR 0x22, CHR '']''] \<and>
   encString (\<lambda>s. CHR 0x22 # s @ [CHR 0x22]) (GoString ''abc'') = ''abc'' \<and>
   ''abc'' \<notin> set (Set_Strings (\<lambda>s. CHR 0x22 # s @ [CHR 0x22])
      (Set_Set (Set_Set Set_zero ''abc'') ''def'') [''def'', ''abc''])"
  by (simp add: Set_Strings_def Set_String_def Set_Values_def mapKeys_def Set_Set_def Set_zero_def
      itoa_def range_order_keys_def upt_rec finsert_commute)

section \<open>The version counter\<close>

lemma Map_call_ver: "ver (Map_call c m) = ver m \<or> ver (Map_call c m) = ver m + 1"
  by (cases c)
    (auto simp: Map_Clear_def Map_Set_def Map_Delete_def Map_GetOrSet_def Map_Pop_def
      Map_PopAll_def Map_UnmarshalJSON_def Map_BinaryDecode_def
      split: option.splits list.splits prod.splits)

lemma unat_ver_step:
  fixes x y :: "64 word"
  assumes "y = x \<or> y = x + 1" and "unat x + 1 < 2 ^ 64"
  shows "unat x \<le> unat y \<and> unat y \<le> unat x + 1"
  using assms by (auto simp: unat_word_ariths)

lemma Map_calls_ver_bounds:
  "unat (ver m) + length cs < 2 ^ 64 \<Longrightarrow>
     unat (ver m) \<le> unat (ver (fold Map_call cs m)) \<and>
     unat (ver (fold Map_call cs m)) \<le> unat (ver m) + length cs"
proof (induction cs arbitrary: m)
  case Nil
  then show ?case by simp
next
  case (Cons c cs)
  from Cons.prems have "unat (ver m) + 1 < 2 ^ 64" by simp
  with Map_call_ver [of c m]
  have step: "unat (ver m) \<le> unat (ver (Map_call c m)) \<and> unat (ver (Map_call c m)) \<le> unat (ver m) + 1"
    by (rule unat_ver_step)
  with Cons.prems have "unat (ver (Map_call c m)) + length cs < 2 ^ 64" by simp
  from Cons.IH [OF this] step show ?case by simp
qed

lemma ver_strict:
  fixes x :: "64 word"
  shows "unat x + 1 < 2 ^ 64 \<Longrightarrow> x < x + 1"
  by (simp add: word_less_nat_alt unat_word_ariths)

lemma ver_replicate_Set:
  "ver (fold Map_call (replicate n (Call_Set k v)) m) = ver m + of_nat n"
  by (induction n arbitrary: m) (simp_all add: Map_Set_def)

text \<open>
  Claim C5, as stated: across every finite sequence of operations \<open>Version()\<close> is
  non-decreasing. The counter is a \<open>uint64\<close> and \<open>m.ver++\<close> wraps: on a new store,
  \<open>2^64 - 1\<close> calls of \<open>Set\<close> bring the version to \<open>2^64 - 1\<close>, and one more call
  brings it to 0.
\<close>

theorem Version_wraps_counterexample:
  "\<not> Map_Version (Map_calls (replicate (2 ^ 64 - 1) (Call_Set ''a'' (1::int))) Map_zero)
      \<le> Map_Version (Map_calls (replicate (2 ^ 64) (Call_Set ''a'' (1::int))) Map_zero)"
proof -
  have "Map_Version (Map_calls (replicate (2 ^ 64 - 1) (Call_Set ''a'' (1::int))) Map_zero)
          = of_nat (2 ^ 64 - 1)"
    unfolding Map_Version_def Map_calls_def ver_replicate_Set by (simp add: Map_zero_def)
  also have "(of_nat (2 ^ 64 - 1) :: 64 word) = - 1" by simp
  finally have before:
    "Map_Version (Map_calls (replicate (2 ^ 64 - 1) (Call_Set ''a'' (1::int))) Map_zero) = - 1" .
  have "Map_Version (Map_calls (replicate (2 ^ 64) (Call_Set ''a'' (1::int))) Map_zero)
          = of_nat (2 ^ 64)"
    unfolding Map_Version_def Map_calls_def ver_replicate_Set by (simp add: Map_zero_def)
  also have "(of_nat (2 ^ 64) :: 64 word) = 0" by simp
  finally have after:
    "Map_Version (Map_calls (replicate (2 ^ 64) (Call_Set ''a'' (1::int))) Map_zero) = 0" .
  show ?thesis unfolding before after by simp
qed

text \<open>
  Claim C5, amended: across every finite sequence of calls on a keyed store during which
  the counter does not pass \<open>2^64 - 1\<close> (the version at the start plus the number of
  calls is below \<open>2^64\<close>), \<open>Version()\<close> is non-decreasing: it is no smaller after the
  calls \<open>cs\<close> and \<open>ds\<close> than after \<open>cs\<close> alone. From a version below \<open>2^64 - 1\<close> it
  strictly increases across every \<open>Set\<close>, every \<open>PopAll\<close> and every \<open>Delete\<close> on a
  non-empty store. Nothing is said of \<open>Increment\<close>, which the store does not have.
\<close>

theorem Version_monotone_until_wrap:
  "(unat (Map_Version m) + length (cs @ ds) < 2 ^ 64 \<longrightarrow>
      Map_Version (Map_calls cs m) \<le> Map_Version (Map_calls (cs @ ds) m)) \<and>
   (unat (Map_Version m) + 1 < 2 ^ 64 \<longrightarrow>
      Map_Version m < Map_Version (Map_Set m k v) \<and>
      Map_Version m < Map_Version (snd (Map_PopAll m)) \<and>
      (0 < Map_Len m \<longrightarrow> Map_Version m < Map_Version (Map_Delete m k)))"
proof (intro conjI impI)
  assume b: "unat (Map_Version m) + length (cs @ ds) < 2 ^ 64"
  then have "unat (ver m) + length cs < 2 ^ 64" by (simp add: Map_Version_def)
  from Map_calls_ver_bounds [OF this]
  have "unat (ver (fold Map_call cs m)) \<le> unat (ver m) + length cs" by simp
  with b have "unat (ver (fold Map_call cs m)) + length ds < 2 ^ 64"
    by (simp add: Map_Version_def)
  from Map_calls_ver_bounds [OF this]
  show "Map_Version (Map_calls cs m) \<le> Map_Version (Map_calls (cs @ ds) m)"
    by (simp add: Map_Version_def Map_calls_def word_le_nat_alt)
next
  assume "unat (Map_Version m) + 1 < 2 ^ 64"
  then show "Map_Version m < Map_Version (Map_Set m k v)"
    by (simp add: Map_Version_def Map_Set_def ver_strict)
next
  assume "unat (Map_Version m) + 1 < 2 ^ 64"
  then show "Map_Version m < Map_Version (snd (Map_PopAll m))"
    by (simp add: Map_Version_def Map_PopAll_def ver_strict)
next
  assume "unat (Map_Version m) + 1 < 2 ^ 64" and "0 < Map_Len m"
  then show "Map_Version m < Map_Version (Map_Delete m k)"
    by (auto simp: Map_Version_def Map_Delete_def Map_Len_def ver_strict split: option.splits)
qed

theorem Version_monotone_until_wrap_witness:
  "unat (Map_Version (Map_Set Map_zero ''a'' (1::int)))
     + length ([Call_Set ''b'' 2, Call_read] @ [Call_Delete ''a'', Call_PopAll, Call_Clear]) < 2 ^ 64 \<and>
   Map_Version (Map_calls [Call_Set ''b'' 2, Call_read] (Map_Set Map_zero ''a'' (1::int)))
     \<le> Map_Version (Map_calls ([Call_Set ''b'' 2, Call_read] @ [Call_Delete ''a'', Call_PopAll, Call_Clear])
          (Map_Set Map_zero ''a'' (1::int))) \<and>
   unat (Map_Version (Map_Set Map_zero ''a'' (1::int))) + 1 < 2 ^ 64 \<and>
   Map_Version (Map_Set Map_zero ''a'' (1::int))
     < Map_Version (Map_Set (Map_Set Map_zero ''a'' (1::int)) ''b'' 2) \<and>
   Map_Version (Map_Set Map_zero ''a'' (1::int))
     < Map_Version (snd (Map_PopAll (Map_Set Map_zero ''a'' (1::int)))) \<and>
   0 < Map_Len (Map_Set Map_zero ''a'' (1::int)) \<and>
   Map_Version (Map_Set Map_zero ''a'' (1::int))
     < Map_Version (Map_Delete (Map_Set Map_zero ''a'' (1::int)) ''b'')"
  using Version_monotone_until_wrap [of "Map_Set Map_zero ''a'' (1::int)"
      "[Call_Set ''b'' 2, Call_read]" "[Call_Delete ''a'', Call_PopAll, Call_Clear]" "''b''" 2]
  by (simp add: Map_Version_def Map_Set_def Map_zero_def Map_Len_def fcard_finsert_if fcard_fempty)

section \<open>Sequences of \<open>Set\<close> and \<open>Delete\<close>\<close>

lemma Map_Exists_Set: "Map_Exists (Map_Set m k' v) k \<longleftrightarrow> k = k' \<or> Map_Exists m k"
  by (auto simp: Map_Exists_def Map_Set_def split: option.splits)

lemma Map_Exists_Delete: "Map_Exists (Map_Delete m k') k \<longleftrightarrow> k \<noteq> k' \<and> Map_Exists m k"
  by (auto simp: Map_Exists_def Map_Delete_def split: option.splits)

lemma Map_Exists_fold:
  "only_Set_Delete cs \<Longrightarrow>
     Map_Exists (fold Map_call cs m) k \<longleftrightarrow>
       set_not_deleted cs k \<or> (Map_Exists m k \<and> \<not> list_ex (is_Delete_of k) cs)"
proof (induction cs arbitrary: m)
  case Nil
  then show ?case by simp
next
  case (Cons c cs)
  from Cons.prems have rest: "only_Set_Delete cs"
    by (simp add: only_Set_Delete_def)
  note IH = Cons.IH [OF rest]
  from Cons.prems consider (Set) k' v where "c = Call_Set k' v" | (Delete) k' where "c = Call_Delete k'"
    by (cases c) (simp_all add: only_Set_Delete_def)
  then show ?case
  proof cases
    case Set
    then show ?thesis by (auto simp: IH Map_Exists_Set)
  next
    case Delete
    then show ?thesis by (auto simp: IH Map_Exists_Delete)
  qed
qed

lemma Map_Len_card: "Map_Len m = card {k. Map_Exists m k}"
proof (cases "vals m")
  case None
  then show ?thesis by (simp add: Map_Len_def Map_Exists_def)
next
  case (Some mp)
  have "fset (fmdom mp) = {k. fmlookup mp k \<noteq> None}"
    by (auto simp: fmlookup_dom_iff)
  then show ?thesis using Some by (simp add: Map_Len_def Map_Exists_def fcard.rep_eq)
qed

text \<open>
  Claim C6: after every finite sequence of \<open>Set\<close> and \<open>Delete\<close> calls on a new keyed
  store, \<open>Len()\<close> is the number of keys that are present, and \<open>Exists(k)\<close> is true
  exactly when \<open>k\<close> was set at some point and not deleted after that.
\<close>

theorem Len_Exists_after_Set_Delete:
  "only_Set_Delete cs \<Longrightarrow>
     Map_Len (Map_calls cs Map_zero) = card {k. Map_Exists (Map_calls cs Map_zero) k} \<and>
     Map_Len (Map_calls cs Map_zero) = card {k. set_not_deleted cs k} \<and>
     (Map_Exists (Map_calls cs Map_zero) k \<longleftrightarrow> set_not_deleted cs k)"
proof -
  assume a: "only_Set_Delete cs"
  have "Map_Exists (Map_calls cs Map_zero) j \<longleftrightarrow> set_not_deleted cs j" for j :: 'a
    using Map_Exists_fold [OF a, of Map_zero j]
    by (simp add: Map_calls_def Map_Exists_def Map_zero_def)
  then show ?thesis by (simp add: Map_Len_card)
qed

theorem Len_Exists_after_Set_Delete_witness:
  "only_Set_Delete [Call_Set ''a'' (1::int), Call_Set ''b'' 2, Call_Delete ''a'', Call_Set ''a'' 3,
      Call_Delete ''b''] \<and>
   Map_Len (Map_calls [Call_Set ''a'' (1::int), Call_Set ''b'' 2, Call_Delete ''a'', Call_Set ''a'' 3,
      Call_Delete ''b''] Map_zero) = 1 \<and>
   card {k. Map_Exists (Map_calls [Call_Set ''a'' (1::int), Call_Set ''b'' 2, Call_Delete ''a'',
      Call_Set ''a'' 3, Call_Delete ''b''] Map_zero) k} = 1 \<and>
   card {k. set_not_deleted [Call_Set ''a'' (1::int), Call_Set ''b'' 2, Call_Delete ''a'',
      Call_Set ''a'' 3, Call_Delete ''b''] k} = 1 \<and>
   Map_Exists (Map_calls [Call_Set ''a'' (1::int), Call_Set ''b'' 2, Call_Delete ''a'',
      Call_Set ''a'' 3, Call_Delete ''b''] Map_zero) ''a'' \<and>
   set_not_deleted [Call_Set ''a'' (1::int), Call_Set ''b'' 2, Call_Delete ''a'', Call_Set ''a'' 3,
      Call_Delete ''b''] ''a''"
proof -
  have h: "only_Set_Delete [Call_Set ''a'' (1::int), Call_Set ''b'' 2, Call_Delete ''a'',
      Call_Set ''a'' 3, Call_Delete ''b'']"
    by (simp add: only_Set_Delete_def)
  have len: "Map_Len (Map_calls [Call_Set ''a'' (1::int), Call_Set ''b'' 2, Call_Delete ''a'',
      Call_Set ''a'' 3, Call_Delete ''b''] Map_zero) = 1"
    by (simp add: Map_calls_def Map_Len_def Map_Set_def Map_Delete_def Map_zero_def
        fcard_finsert_if fcard_fempty)
  have s: "set_not_deleted [Call_Set ''a'' (1::int), Call_Set ''b'' 2, Call_Delete ''a'',
      Call_Set ''a'' 3, Call_Delete ''b''] ''a''"
    by simp
  from Len_Exists_after_Set_Delete [OF h, of "''a''"] h len s show ?thesis by simp
qed

section \<open>The JSON round trip of the keyed store\<close>









section \<open>\<open>GetOrSet\<close>\<close>

text \<open>
  Claim C8: if \<open>k\<close> is present, \<open>GetOrSet(k, fn)\<close> returns the stored value, does not call
  \<open>fn\<close> (the store and the world come back as they went in) and leaves the mapping and
  the version as they are; if \<open>k\<close> is absent, it returns the result of \<open>fn\<close>, stores it
  under \<open>k\<close> and increments the version. The store and the increment are those of the
  \<open>m.Set\<close> that follows \<open>fn\<close>: they act on the store as \<open>fn\<close> left it, and on the
  store from before the call when \<open>fn\<close> does not touch the store.
\<close>

theorem GetOrSet_present_absent:
  "(Map_Exists m k \<longrightarrow> Map_GetOrSet m k fn w = (Map_Get z m k, m, w)) \<and>
   (\<not> Map_Exists m k \<longrightarrow>
      fst (Map_GetOrSet m k fn w) = fst (fn m w) \<and>
      snd (snd (Map_GetOrSet m k fn w)) = snd (snd (fn m w)) \<and>
      Map_KeyValues (fst (snd (Map_GetOrSet m k fn w)))
        = fmupd k (fst (fn m w)) (Map_KeyValues (fst (snd (fn m w)))) \<and>
      Map_Get z (fst (snd (Map_GetOrSet m k fn w))) k = fst (fn m w) \<and>
      Map_Version (fst (snd (Map_GetOrSet m k fn w))) = Map_Version (fst (snd (fn m w))) + 1 \<and>
      (fst (snd (fn m w)) = m \<longrightarrow>
         Map_KeyValues (fst (snd (Map_GetOrSet m k fn w))) = fmupd k (fst (fn m w)) (Map_KeyValues m) \<and>
         Map_Version (fst (snd (Map_GetOrSet m k fn w))) = Map_Version m + 1))"
  by (auto simp: Map_GetOrSet_def Map_Exists_def Map_Get_def Map_Set_def Map_KeyValues_def
      Map_Version_def split: option.splits prod.splits)

theorem GetOrSet_present_absent_witness:
  "Map_Exists (Map_Set Map_zero ''a'' (1::int)) ''a'' \<and>
   Map_GetOrSet (Map_Set Map_zero ''a'' (1::int)) ''a'' (\<lambda>s w. (7, Map_Set s ''c'' 9, Suc w)) (0::nat)
     = (1, Map_Set Map_zero ''a'' 1, 0) \<and>
   \<not> Map_Exists (Map_Set Map_zero ''a'' (1::int)) ''b'' \<and>
   Map_GetOrSet (Map_Set Map_zero ''a'' (1::int)) ''b'' (\<lambda>s w. (7, s, Suc w)) (0::nat)
     = (7, \<lparr>ver = 2, vals = Some (fmupd ''b'' 7 (fmupd ''a'' 1 fmempty))\<rparr>, 1) \<and>
   Map_Version (fst (snd (Map_GetOrSet (Map_Set Map_zero ''a'' (1::int)) ''b''
      (\<lambda>s w. (7, s, Suc w)) (0::nat)))) = Map_Version (Map_Set Map_zero ''a'' (1::int)) + 1 \<and>
   Map_GetOrSet (Map_Set Map_zero ''a'' (1::int)) ''b'' (\<lambda>s w. (7, Map_Set s ''c'' 9, Suc w)) (0::nat)
     = (7, \<lparr>ver = 3, vals = Some (fmupd ''b'' 7 (fmupd ''c'' 9 (fmupd ''a'' 1 fmempty)))\<rparr>, 1) \<and>
   Map_Version (fst (snd (Map_GetOrSet (Map_Set Map_zero ''a'' (1::int)) ''b''
      (\<lambda>s w. (7, Map_Set s ''c'' 9, Suc w)) (0::nat))))
     = Map_Version (Map_Set (Map_Set Map_zero ''a'' (1::int)) ''c'' 9) + 1"
  using GetOrSet_present_absent [where m = "Map_Set Map_zero ''a'' (1::int)" and k = "''a''"
      and fn = "\<lambda>s w. (7, Map_Set s ''c'' 9, Suc w)" and w = "0::nat" and z = 0]
    GetOrSet_present_absent [where m = "Map_Set Map_zero ''a'' (1::int)" and k = "''b''"
      and fn = "\<lambda>s w. (7, s, Suc w)" and w = "0::nat" and z = 0]
    GetOrSet_present_absent [where m = "Map_Set Map_zero ''a'' (1::int)" and k = "''b''"
      and fn = "\<lambda>s w. (7, Map_Set s ''c'' 9, Suc w)" and w = "0::nat" and z = 0]
  by (simp add: Map_Exists_def Map_Set_def Map_zero_def Map_Get_def Map_KeyValues_def
      Map_Version_def Map_GetOrSet_def)

section \<open>\<open>Random\<close>\<close>

lemma Random_scan_nth:
  "0 \<le> n \<Longrightarrow> n < int (length xs) \<Longrightarrow> Random_scan xs n = Inr (xs ! nat n)"
proof (induction xs arbitrary: n)
  case Nil
  then show ?case by simp
next
  case (Cons x xs)
  show ?case
  proof (cases "n = 0")
    case True
    then show ?thesis by simp
  next
    case False
    with Cons.prems have "0 \<le> n - 1" "n - 1 < int (length xs)" by auto
    then have "Random_scan xs (n - 1) = Inr (xs ! nat (n - 1))" by (rule Cons.IH)
    moreover have "nat n = Suc (nat (n - 1))" using False Cons.prems by auto
    ultimately show ?thesis using False by simp
  qed
qed

lemma range_order_length: "range_order mp it \<Longrightarrow> fcard (fmdom mp) = length it"
proof -
  assume "range_order mp it"
  then have d: "distinct (map fst it)" and e: "fmap_of_list it = mp"
    by (simp_all add: range_order_def)
  have "fcard (fmdom mp) = card (set (map fst it))"
    unfolding e [symmetric] by (simp add: fcard.rep_eq fset_of_list.rep_eq)
  also have "\<dots> = length it" using distinct_card [OF d] by simp
  finally show ?thesis .
qed

lemma range_order_keys_length: "range_order_keys s it \<Longrightarrow> fcard s = length it"
  by (auto simp: range_order_keys_def fcard.rep_eq fset_of_list.rep_eq distinct_card)

lemma range_order_lookup:
  "range_order mp it \<Longrightarrow> i < length it \<Longrightarrow> fmlookup mp (fst (it ! i)) = Some (snd (it ! i))"
proof -
  assume r: "range_order mp it" and i: "i < length it"
  then have "map_of it (fst (it ! i)) = Some (snd (it ! i))"
    by (simp add: range_order_def)
  then show ?thesis using r by (auto simp: range_order_def fmap_of_list.rep_eq)
qed

text \<open>
  Claim C9: when the size is greater than zero, \<open>Random()\<close> does not panic: for every
  \<open>n\<close> in \<open>[0, size)\<close> the scan over the entries, in whatever order \<open>range\<close> yields
  them, returns at its step \<open>n\<close>, with an entry of the store. This holds for the keyed
  store and for the membership store.
\<close>

theorem Random_never_panics:
  "(range_order (Map_KeyValues m) it \<and> 0 \<le> n \<and> n < int (Map_Len m) \<longrightarrow>
      Map_Random m n it = Inr (Some (it ! nat n)) \<and>
      fmlookup (Map_KeyValues m) (fst (it ! nat n)) = Some (snd (it ! nat n))) \<and>
   (Set_vals s = Some ks \<and> range_order_keys ks js \<and> 0 \<le> j \<and> j < int (Set_Size s) \<longrightarrow>
      Set_Random s j js = Inr (Some (js ! nat j)) \<and> js ! nat j |\<in>| ks)"
proof (intro conjI impI)
  assume a: "range_order (Map_KeyValues m) it \<and> 0 \<le> n \<and> n < int (Map_Len m)"
  then have len: "Map_Len m = length it"
    using range_order_length [of "Map_KeyValues m" it]
    by (auto simp: Map_Len_def Map_KeyValues_def fcard_fempty split: option.splits)
  with a have "0 < length it" by linarith
  with a len show "Map_Random m n it = Inr (Some (it ! nat n))"
    by (simp add: Map_Random_def Random_scan_nth)
  from a len show "fmlookup (Map_KeyValues m) (fst (it ! nat n)) = Some (snd (it ! nat n))"
    by (intro range_order_lookup) auto
next
  assume a: "Set_vals s = Some ks \<and> range_order_keys ks js \<and> 0 \<le> j \<and> j < int (Set_Size s)"
  then have len: "Set_Size s = length js"
    using range_order_keys_length [of ks js] by (simp add: Set_Size_def)
  with a have "0 < length js" by linarith
  with a len show "Set_Random s j js = Inr (Some (js ! nat j))"
    by (simp add: Set_Random_def Random_scan_nth)
  from a len have "js ! nat j \<in> set js" by (intro nth_mem) auto
  with a show "js ! nat j |\<in>| ks" by (auto simp: range_order_keys_def fset_of_list.rep_eq)
qed

theorem Random_never_panics_witness:
  "range_order (Map_KeyValues (Map_Set (Map_Set Map_zero ''a'' (1::int)) ''b'' 2))
      [(''b'', 2), (''a'', 1)] \<and>
   (1::int) < int (Map_Len (Map_Set (Map_Set Map_zero ''a'' (1::int)) ''b'' 2)) \<and>
   Map_Random (Map_Set (Map_Set Map_zero ''a'' (1::int)) ''b'' 2) 1 [(''b'', 2), (''a'', 1)]
     = Inr (Some (''a'', 1)) \<and>
   Set_vals (Set_Set (Set_Set Set_zero ''a'') ''b'') = Some {|''b'', ''a''|} \<and>
   range_order_keys {|''b'', ''a''|} [''a'', ''b''] \<and>
   (1::int) < int (Set_Size (Set_Set (Set_Set Set_zero ''a'') ''b'')) \<and>
   Set_Random (Set_Set (Set_Set Set_zero ''a'') ''b'') 1 [''a'', ''b''] = Inr (Some ''b'')"
  using Random_never_panics [of "Map_Set (Map_Set Map_zero ''a'' (1::int)) ''b'' 2"
      "[(''b'', 2), (''a'', 1)]" 1 "Set_Set (Set_Set Set_zero ''a'') ''b''" "{|''b'', ''a''|}"
      "[''a'', ''b'']" 1]
  by (simp add: range_order_def range_order_keys_def Map_KeyValues_def Map_Set_def Map_zero_def
      Map_Len_def Set_Set_def Set_zero_def Set_Size_def fcard_finsert_if fcard_fempty
      finsert_commute)

section \<open>A failed decode of the membership store\<close>

text \<open>
  Claim C10: when the input does not decode, \<open>UnmarshalJSON\<close> and \<open>BinaryDecode\<close> of the
  membership store return the error and leave the store as it was, keys and version.
\<close>

theorem Set_decode_failure_atomic:
  "(Unmarshal data = Inl e \<longrightarrow> Set_UnmarshalJSON Unmarshal m data = (Some e, m)) \<and>
   (Decode r = Inl e' \<longrightarrow> Set_BinaryDecode Decode m r = (Some e', m))"
  by (simp add: Set_UnmarshalJSON_def Set_BinaryDecode_def)

theorem Set_decode_failure_atomic_witness:
  "(\<lambda>_. Inl SyntaxError :: error + string list) ''[1,'' = Inl SyntaxError \<and>
   Set_UnmarshalJSON (\<lambda>_. Inl SyntaxError) (Set_Set Set_zero ''a'') ''[1,''
     = (Some SyntaxError, \<lparr>Set_ver = 1, Set_vals = Some {|''a''|}\<rparr>) \<and>
   (\<lambda>_. Inl OtherError :: error + string list) ''xx'' = Inl OtherError \<and>
   Set_BinaryDecode (\<lambda>_. Inl OtherError) (Set_Set Set_zero ''a'') ''xx''
     = (Some OtherError, \<lparr>Set_ver = 1, Set_vals = Some {|''a''|}\<rparr>)"
  using Set_decode_failure_atomic [of "\<lambda>_. Inl SyntaxError" "''[1,''" SyntaxError
      "Set_Set Set_zero ''a''" "\<lambda>_. Inl OtherError" "''xx''" OtherError]
  by (simp add: Set_Set_def Set_zero_def)

end
